theory Spec2Isabelle
  imports Main
begin

section \<open>Python values and exceptions\<close>

text \<open>
  The script \<^verbatim>\<open>extract_coverage.py\<close> reads a JSON document with \<^verbatim>\<open>json.load\<close>,
  subscripts it, multiplies one entry by \<^verbatim>\<open>100\<close> and formats the product with
  \<^verbatim>\<open>"{0:.0f}"\<close>. The values it can meet are the ones \<^verbatim>\<open>json.load\<close> builds:
  \<^verbatim>\<open>None\<close>, \<^verbatim>\<open>bool\<close>, \<^verbatim>\<open>int\<close> (unbounded), \<^verbatim>\<open>float\<close> (IEEE 754 binary64),
  \<^verbatim>\<open>str\<close>, \<^verbatim>\<open>list\<close> and \<^verbatim>\<open>dict\<close> with string keys.

  A binary64 value is kept as what it denotes: \<open>Finite s m e\<close> is
  \<open>(-1)^s * m * 2^e\<close>. The values a binary64 can hold are the ones accepted by
  \<open>valid_double\<close> below (53-bit significand, exponent between \<open>-1074\<close> and \<open>971\<close>,
  significand at least \<open>2^52\<close> unless the exponent is \<open>-1074\<close>).
\<close>

datatype double = Finite bool nat int | Infinite bool | NaN

datatype pyval =
    PNone
  | PBool bool
  | PInt int
  | PFloat double
  | PStr string
  | PList "pyval list"
  | PDict "(string \<times> pyval) list"

datatype exc =
    JSONDecodeError
  | KeyError
  | IndexError
  | TypeError
  | ValueError
  | OverflowError

fun valid_double :: "double \<Rightarrow> bool" where
  "valid_double (Finite s m e) =
     (m < 2 ^ 53 \<and> - 1074 \<le> e \<and> e \<le> 971 \<and> (2 ^ 52 \<le> m \<or> e = - 1074))"
| "valid_double (Infinite s) = True"
| "valid_double NaN = True"

section \<open>Arithmetic of the interpreter\<close>

text \<open>Python's \<^verbatim>\<open>int.bit_length\<close> on a natural number.\<close>

fun bit_length :: "nat \<Rightarrow> nat" where
  "bit_length n = (if n = 0 then 0 else Suc (bit_length (n div 2)))"

declare bit_length.simps [simp del]

text \<open>
  \<open>round_half_even n d\<close> is the integer nearest to \<open>n / d\<close>, a tie going to the even
  neighbour: the rounding of IEEE 754 arithmetic in its default mode and of the decimal
  conversion behind \<^verbatim>\<open>float.__format__\<close>.
\<close>

definition round_half_even :: "nat \<Rightarrow> nat \<Rightarrow> nat" where
  "round_half_even n d =
     (let q = n div d; r = n mod d
      in if d < 2 * r \<or> (2 * r = d \<and> odd q) then q + 1 else q)"

text \<open>
  \<open>round_to_double s n e\<close> is the binary64 nearest to \<open>(-1)^s * n * 2^e\<close>: the
  significand is cut to 53 bits (fewer below the normal range, where the exponent stays
  at \<open>-1074\<close>), ties go to even, and a result beyond the largest finite binary64 is an
  infinity.
\<close>

definition round_to_double :: "bool \<Rightarrow> nat \<Rightarrow> int \<Rightarrow> double" where
  "round_to_double s n e =
     (if n = 0 then Finite s 0 (- 1074)
      else
        let e' = max (e + int (bit_length n) - 53) (- 1074)
        in if e' \<le> e then
             (if 971 < e' then Infinite s else Finite s (n * 2 ^ nat (e - e')) e')
           else
             let q = round_half_even n (2 ^ nat (e' - e));
                 m = (if q = 2 ^ 53 then 2 ^ 52 else q);
                 e'' = (if q = 2 ^ 53 then e' + 1 else e')
             in if 971 < e'' then Infinite s else Finite s m e'')"

text \<open>
  \<^verbatim>\<open>x * 100\<close> for a float \<^verbatim>\<open>x\<close>: \<^verbatim>\<open>100\<close> becomes \<^verbatim>\<open>100.0\<close> and the product is the
  exact product rounded to binary64.
\<close>

fun float_mul_int :: "double \<Rightarrow> int \<Rightarrow> double" where
  "float_mul_int (Finite s m e) k =
     round_to_double (s \<noteq> (k < 0)) (m * nat \<bar>k\<bar>) e"
| "float_mul_int (Infinite s) k = (if k = 0 then NaN else Infinite (s \<noteq> (k < 0)))"
| "float_mul_int NaN k = NaN"

text \<open>
  \<^verbatim>\<open>float(n)\<close> for an int \<^verbatim>\<open>n\<close> (\<^verbatim>\<open>int.__float__\<close>): the nearest binary64, and
  \<^verbatim>\<open>OverflowError\<close> ("int too large to convert to float") where that is no finite
  value.
\<close>

definition int_to_float :: "int \<Rightarrow> exc + double" where
  "int_to_float n =
     (case round_to_double (n < 0) (nat \<bar>n\<bar>) 0 of
        Finite s m e \<Rightarrow> Inr (Finite (n < 0) m e)
      | _ \<Rightarrow> Inl OverflowError)"

section \<open>Decimal text\<close>

definition digit_char :: "nat \<Rightarrow> char" where
  "digit_char d = ''0123456789'' ! d"

fun show_nat :: "nat \<Rightarrow> string" where
  "show_nat n = (if n < 10 then [digit_char n] else show_nat (n div 10) @ [digit_char (n mod 10)])"

declare show_nat.simps [simp del]

text \<open>
  \<^verbatim>\<open>"{0:.0f}".format(x)\<close> for a float \<^verbatim>\<open>x\<close>: a minus sign when the sign bit is set
  (also for \<^verbatim>\<open>-0.0\<close> and for a negative value that rounds to zero), then the digits of
  the value rounded to an integer, ties to even; \<^verbatim>\<open>inf\<close>, \<^verbatim>\<open>-inf\<close> and \<^verbatim>\<open>nan\<close> for
  the other values.
\<close>

fun float_round :: "nat \<Rightarrow> int \<Rightarrow> nat" where
  "float_round m e = (if 0 \<le> e then m * 2 ^ nat e else round_half_even m (2 ^ nat (- e)))"

fun format_float_0f :: "double \<Rightarrow> string" where
  "format_float_0f (Finite s m e) = (if s then ''-'' else '''') @ show_nat (float_round m e)"
| "format_float_0f (Infinite s) = (if s then ''-inf'' else ''inf'')"
| "format_float_0f NaN = ''nan''"

section \<open>Operations on Python values\<close>

definition newline :: char where
  "newline = CHR 0x0A"

text \<open>\<^verbatim>\<open>x[k]\<close> for a string \<^verbatim>\<open>k\<close>: a lookup in a dict, \<^verbatim>\<open>TypeError\<close> on anything else.\<close>

fun getitem_key :: "pyval \<Rightarrow> string \<Rightarrow> exc + pyval" where
  "getitem_key (PDict kvs) k = (case map_of kvs k of None \<Rightarrow> Inl KeyError | Some v \<Rightarrow> Inr v)"
| "getitem_key _ k = Inl TypeError"

text \<open>
  \<^verbatim>\<open>x[i]\<close> for an index \<^verbatim>\<open>i \<ge> 0\<close>: an element of a list, a one-character string of a
  string, \<^verbatim>\<open>KeyError\<close> on a dict (its keys are strings), \<^verbatim>\<open>TypeError\<close> otherwise.
\<close>

fun getitem_idx :: "pyval \<Rightarrow> nat \<Rightarrow> exc + pyval" where
  "getitem_idx (PList xs) i = (if i < length xs then Inr (xs ! i) else Inl IndexError)"
| "getitem_idx (PStr s) i = (if i < length s then Inr (PStr [s ! i]) else Inl IndexError)"
| "getitem_idx (PDict kvs) i = Inl KeyError"
| "getitem_idx _ i = Inl TypeError"

fun py_len :: "pyval \<Rightarrow> exc + nat" where
  "py_len (PList xs) = Inr (length xs)"
| "py_len (PStr s) = Inr (length s)"
| "py_len (PDict kvs) = Inr (length kvs)"
| "py_len _ = Inl TypeError"

text \<open>\<^verbatim>\<open>x == framework\<close> where \<^verbatim>\<open>framework\<close> is a string: no other type is equal to it.\<close>

definition py_eq_str :: "pyval \<Rightarrow> string \<Rightarrow> bool" where
  "py_eq_str x s = (x = PStr s)"

text \<open>\<^verbatim>\<open>x * k\<close> for an int \<^verbatim>\<open>k\<close>: a product of numbers, a repetition of sequences.\<close>

fun py_mul_int :: "pyval \<Rightarrow> int \<Rightarrow> exc + pyval" where
  "py_mul_int (PInt n) k = Inr (PInt (n * k))"
| "py_mul_int (PBool b) k = Inr (PInt ((if b then 1 else 0) * k))"
| "py_mul_int (PFloat d) k = Inr (PFloat (float_mul_int d k))"
| "py_mul_int (PStr s) k = Inr (PStr (concat (replicate (nat k) s)))"
| "py_mul_int (PList xs) k = Inr (PList (concat (replicate (nat k) xs)))"
| "py_mul_int PNone k = Inl TypeError"
| "py_mul_int (PDict kvs) k = Inl TypeError"

text \<open>
  \<^verbatim>\<open>"{0:.0f}".format(x)\<close>: an int (and a bool, which is one) is converted to float
  first; a string rejects the format code with \<^verbatim>\<open>ValueError\<close>; the other types
  reject any non-empty format with \<^verbatim>\<open>TypeError\<close>.
\<close>

fun py_format_0f :: "pyval \<Rightarrow> exc + string" where
  "py_format_0f (PFloat d) = Inr (format_float_0f d)"
| "py_format_0f (PInt n) =
     (case int_to_float n of Inl x \<Rightarrow> Inl x | Inr d \<Rightarrow> Inr (format_float_0f d))"
| "py_format_0f (PBool b) =
     (case int_to_float (if b then 1 else 0) of Inl x \<Rightarrow> Inl x | Inr d \<Rightarrow> Inr (format_float_0f d))"
| "py_format_0f (PStr s) = Inl ValueError"
| "py_format_0f _ = Inl TypeError"

section \<open>The script\<close>

text \<open>
  What one run leaves behind: the text on standard output, what went to standard
  error, the exit status, and what is left unread on standard input. An exception that
  nothing catches ends the run with status 1 and the interpreter's traceback on standard
  error; the traceback's text is the interpreter's and is kept as the exception only.
\<close>

datatype err_out = Silent | Text string | Traceback exc

record outcome =
  stdout :: string
  stderr :: err_out
  exit_code :: nat
  stdin_rest :: string

definition uncaught :: "exc \<Rightarrow> string \<Rightarrow> outcome" where
  "uncaught x rest = \<lparr>stdout = [], stderr = Traceback x, exit_code = 1, stdin_rest = rest\<rparr>"

definition sys_exit :: "string \<Rightarrow> nat \<Rightarrow> outcome" where
  "sys_exit out c = \<lparr>stdout = out, stderr = Silent, exit_code = c, stdin_rest = []\<rparr>"

text \<open>
  The body of the \<^verbatim>\<open>if\<close> once \<^verbatim>\<open>j["targets"][i]["lineCoverage"]\<close> has the value
  \<open>c\<close>: \<^verbatim>\<open>print("{0:.0f}".format(c * 100))\<close>, then \<^verbatim>\<open>exit(0)\<close>.
\<close>

definition print_percentage :: "pyval \<Rightarrow> outcome" where
  "print_percentage c =
     (case py_mul_int c 100 of
        Inl x \<Rightarrow> uncaught x []
      | Inr p \<Rightarrow>
          (case py_format_0f p of
             Inl x \<Rightarrow> uncaught x []
           | Inr s \<Rightarrow> sys_exit (s @ [newline]) 0))"

text \<open>\<^verbatim>\<open>j["targets"][i][k]\<close>, evaluated from the left.\<close>

definition target_field :: "pyval \<Rightarrow> nat \<Rightarrow> string \<Rightarrow> exc + pyval" where
  "target_field j i k =
     (case getitem_key j ''targets'' of
        Inl x \<Rightarrow> Inl x
      | Inr t \<Rightarrow>
          (case getitem_idx t i of
             Inl x \<Rightarrow> Inl x
           | Inr r \<Rightarrow> getitem_key r k))"

text \<open>
  The loop \<^verbatim>\<open>for i in range(len(j["targets"]))\<close> from index \<open>i\<close> on, \<open>n\<close> being the
  length taken before the loop. Each round evaluates \<^verbatim>\<open>j["targets"][i]["name"]\<close> and
  compares it with \<^verbatim>\<open>framework\<close>; on a match it evaluates
  \<^verbatim>\<open>j["targets"][i]["lineCoverage"]\<close>, prints and exits.
\<close>

function scan :: "pyval \<Rightarrow> string \<Rightarrow> nat \<Rightarrow> nat \<Rightarrow> outcome" where
  "scan j framework i n =
     (if i < n then
        (case target_field j i ''name'' of
           Inl x \<Rightarrow> uncaught x []
         | Inr nm \<Rightarrow>
             if py_eq_str nm framework then
               (case target_field j i ''lineCoverage'' of
                  Inl x \<Rightarrow> uncaught x []
                | Inr c \<Rightarrow> print_percentage c)
             else scan j framework (i + 1) n)
      else sys_exit [] 1)"
  by pat_completeness auto
termination
  by (relation "measure (\<lambda>(j, framework, i, n). n - i)") auto

declare scan.simps [simp del]

text \<open>
  The whole script, given \<^verbatim>\<open>sys.argv\<close> (the script's path first) and the content of
  standard input. \<^verbatim>\<open>json.load\<close> is the standard library's: it is a parameter here, a
  function from the text read to the value built or the exception raised. It reads
  standard input to its end; the usage branch leaves it untouched.
\<close>

definition extract_coverage ::
  "(string \<Rightarrow> exc + pyval) \<Rightarrow> string list \<Rightarrow> string \<Rightarrow> outcome" where
  "extract_coverage json_load argv stdin =
     (if length argv \<noteq> 2 then
        (case argv of
           [] \<Rightarrow> uncaught IndexError stdin
         | prog # _ \<Rightarrow>
             \<lparr>stdout = [],
              stderr = Text (''Usage: '' @ prog @ '' frameworkname'' @ [newline]),
              exit_code = 1, stdin_rest = stdin\<rparr>)
      else
        let framework = argv ! 1 in
        (case json_load stdin of
           Inl x \<Rightarrow> uncaught x []
         | Inr j \<Rightarrow>
             (case getitem_key j ''targets'' of
                Inl x \<Rightarrow> uncaught x []
              | Inr t \<Rightarrow>
                  (case py_len t of
                     Inl x \<Rightarrow> uncaught x []
                   | Inr n \<Rightarrow> scan j framework 0 n))))"

section \<open>Vocabulary of the specification\<close>

text \<open>
  A well-formed report is a JSON object whose \<^verbatim>\<open>targets\<close> is an array of objects, each
  with a string \<^verbatim>\<open>name\<close> and a numeric \<^verbatim>\<open>lineCoverage\<close> (a JSON number: an int or a
  float once loaded). A dict is kept as the list of its items, looked up with
  \<open>map_of\<close>.
\<close>

fun is_number :: "pyval \<Rightarrow> bool" where
  "is_number (PInt n) = True"
| "is_number (PFloat d) = True"
| "is_number _ = False"

fun is_list :: "pyval \<Rightarrow> bool" where
  "is_list (PList xs) = True"
| "is_list _ = False"

fun well_formed_target :: "pyval \<Rightarrow> bool" where
  "well_formed_target (PDict kvs) =
     ((case map_of kvs ''name'' of Some (PStr nm) \<Rightarrow> True | _ \<Rightarrow> False) \<and>
      (case map_of kvs ''lineCoverage'' of Some c \<Rightarrow> is_number c | None \<Rightarrow> False))"
| "well_formed_target _ = False"

fun targets_of :: "pyval \<Rightarrow> pyval list" where
  "targets_of (PDict kvs) = (case map_of kvs ''targets'' of Some (PList ts) \<Rightarrow> ts | _ \<Rightarrow> [])"
| "targets_of _ = []"

fun well_formed_report :: "pyval \<Rightarrow> bool" where
  "well_formed_report (PDict kvs) =
     (case map_of kvs ''targets'' of
        Some (PList ts) \<Rightarrow> list_all well_formed_target ts
      | _ \<Rightarrow> False)"
| "well_formed_report _ = False"

text \<open>A record is named \<open>N\<close> when its \<^verbatim>\<open>name\<close> is the string \<open>N\<close>.\<close>

definition named :: "string \<Rightarrow> pyval \<Rightarrow> bool" where
  "named N r = (getitem_key r ''name'' = Inr (PStr N))"

text \<open>
  A lineCoverage between 0 and 1: the int 0 or 1, or a finite float whose value
  \<open>(-1)^s * m * 2^e\<close> lies there. The float \<^verbatim>\<open>-0.0\<close> has the value 0 and is in the
  interval (\<^verbatim>\<open>0 <= -0.0 <= 1\<close> holds in Python); it is the one member with the sign bit
  set.
\<close>

fun in_unit_interval :: "pyval \<Rightarrow> bool" where
  "in_unit_interval (PInt n) = (0 \<le> n \<and> n \<le> 1)"
| "in_unit_interval (PFloat (Finite s m e)) =
     (m = 0 \<or> (\<not> s \<and> (if 0 \<le> e then m * 2 ^ nat e \<le> 1 else m \<le> 2 ^ nat (- e))))"
| "in_unit_interval _ = False"

fun negative_zero :: "pyval \<Rightarrow> bool" where
  "negative_zero (PFloat (Finite s m e)) = (s \<and> m = 0)"
| "negative_zero _ = False"

definition is_digit :: "char \<Rightarrow> bool" where
  "is_digit ch = (ch \<in> set ''0123456789'')"

text \<open>The usual decimal numeral of an integer.\<close>

definition show_int :: "int \<Rightarrow> string" where
  "show_int n = (if n < 0 then ''-'' else '''') @ show_nat (nat \<bar>n\<bar>)"

text \<open>
  \<^verbatim>\<open>round(c * 100)\<close> as the specification has it, where the printed line is its numeral:
  for an int \<open>c\<close> the product itself, as long as a binary64 holds it exactly (up to
  \<open>2^53\<close>); for a float \<open>c\<close> the binary64 product rounded to an integer, ties to even,
  as long as the product is finite and is not a negative value that rounds to zero
  (printed \<^verbatim>\<open>-0\<close>).
\<close>

fun rounded_percent :: "pyval \<Rightarrow> int option" where
  "rounded_percent (PInt n) = (if \<bar>n\<bar> * 100 \<le> 2 ^ 53 then Some (n * 100) else None)"
| "rounded_percent (PFloat d) =
     (case float_mul_int d 100 of
        Finite s m e \<Rightarrow>
          if s \<and> float_round m e = 0 then None
          else Some ((if s then - 1 else 1) * int (float_round m e))
      | _ \<Rightarrow> None)"
| "rounded_percent _ = None"

text \<open>
  The loop seen on the list \<^verbatim>\<open>j["targets"]\<close> itself, from some position on: what
  \<open>scan\<close> does once \<^verbatim>\<open>j["targets"]\<close> is known to be that list (lemma
  \<open>scan_is_scan_list\<close>).
\<close>

fun scan_list :: "string \<Rightarrow> pyval list \<Rightarrow> outcome" where
  "scan_list framework [] = sys_exit [] 1"
| "scan_list framework (r # rs) =
     (case getitem_key r ''name'' of
        Inl x \<Rightarrow> uncaught x []
      | Inr nm \<Rightarrow>
          if py_eq_str nm framework then
            (case getitem_key r ''lineCoverage'' of
               Inl x \<Rightarrow> uncaught x []
             | Inr c \<Rightarrow> print_percentage c)
          else scan_list framework rs)"

section \<open>Concrete reports\<close>

definition target :: "string \<Rightarrow> pyval \<Rightarrow> pyval" where
  "target nm c = PDict [(''name'', PStr nm), (''lineCoverage'', c)]"

definition report :: "pyval list \<Rightarrow> pyval" where
  "report ts = PDict [(''targets'', PList ts)]"

text \<open>A \<^verbatim>\<open>json.load\<close> known at one text: it builds \<open>doc\<close> from \<open>text\<close>.\<close>

definition reads_as :: "string \<Rightarrow> pyval \<Rightarrow> string \<Rightarrow> exc + pyval" where
  "reads_as text doc s = (if s = text then Inr doc else Inl JSONDecodeError)"

text \<open>
  The binary64 values written \<^verbatim>\<open>0.873\<close>, \<^verbatim>\<open>0.5\<close>, \<^verbatim>\<open>0.25\<close>, \<^verbatim>\<open>0.75\<close>,
  \<^verbatim>\<open>0.005\<close>, \<^verbatim>\<open>-0.0\<close> and \<^verbatim>\<open>-0.5\<close> (\<^verbatim>\<open>float.hex\<close> gives
  \<^verbatim>\<open>0x1.bef9db22d0e56p-1\<close>, \<^verbatim>\<open>0x1.0p-1\<close>, \<^verbatim>\<open>0x1.0p-2\<close>, \<^verbatim>\<open>0x1.8p-1\<close>,
  \<^verbatim>\<open>0x1.47ae147ae147bp-8\<close>, \<^verbatim>\<open>-0x0.0p+0\<close>, \<^verbatim>\<open>-0x1.0p-1\<close>).
\<close>

definition f_0_873 :: double where
  "f_0_873 = Finite False 7863284949388886 (- 53)"

definition f_0_5 :: double where
  "f_0_5 = Finite False 4503599627370496 (- 53)"

definition f_0_25 :: double where
  "f_0_25 = Finite False 4503599627370496 (- 54)"

definition f_0_75 :: double where
  "f_0_75 = Finite False 6755399441055744 (- 53)"

definition f_0_005 :: double where
  "f_0_005 = Finite False 5764607523034235 (- 60)"

definition f_neg_0 :: double where
  "f_neg_0 = Finite True 0 (- 1074)"

definition f_neg_0_5 :: double where
  "f_neg_0_5 = Finite True 4503599627370496 (- 53)"

definition sample_text :: string where
  \<open>sample_text =
     ''{"targets":[{"name":"alpha","lineCoverage":0.873},{"name":"beta","lineCoverage":0.5}]}''\<close>

definition sample_report :: pyval where
  "sample_report = report [target ''alpha'' (PFloat f_0_873), target ''beta'' (PFloat f_0_5)]"

definition dup_text :: string where
  \<open>dup_text =
     ''{"targets":[{"name":"a","lineCoverage":0.25},{"name":"a","lineCoverage":0.75}]}''\<close>

definition dup_report :: pyval where
  "dup_report = report [target ''a'' (PFloat f_0_25), target ''a'' (PFloat f_0_75)]"

definition partial_text :: string where
  \<open>partial_text = ''{"targets":[{"name":"x","lineCoverage":1},{}]}''\<close>

definition partial_report :: pyval where
  "partial_report = report [target ''x'' (PInt 1), PDict []]"

definition negzero_text :: string where
  \<open>negzero_text = ''{"targets":[{"name":"a","lineCoverage":-0.0}]}''\<close>

definition negzero_report :: pyval where
  "negzero_report = report [target ''a'' (PFloat f_neg_0)]"

definition half_percent_text :: string where
  \<open>half_percent_text = ''{"targets":[{"name":"a","lineCoverage":0.005}]}''\<close>

definition half_percent_report :: pyval where
  "half_percent_report = report [target ''a'' (PFloat f_0_005)]"



definition below_zero_text :: string where
  \<open>below_zero_text = ''{"targets":[{"name":"a","lineCoverage":-0.5}]}''\<close>

definition below_zero_report :: pyval where
  "below_zero_report = report [target ''a'' (PFloat f_neg_0_5)]"

text \<open>An integer literal of 401 digits, \<open>10^400\<close>, as lineCoverage.\<close>

definition huge_text :: string where
  \<open>huge_text =
     ''{"targets":[{"name":"a","lineCoverage":1'' @ replicate 400 (CHR ''0'') @ ''}]}''\<close>

definition huge_report :: pyval where
  "huge_report = report [target ''a'' (PInt (10 ^ 400))]"

section \<open>The loop on a list\<close>

lemma target_field_list:
  "getitem_key j ''targets'' = Inr (PList ts) \<Longrightarrow> i < length ts \<Longrightarrow>
   target_field j i k = getitem_key (ts ! i) k"
  by (simp add: target_field_def)

lemma scan_is_scan_list:
  assumes "getitem_key j ''targets'' = Inr (PList ts)"
  shows "i \<le> length ts \<Longrightarrow> scan j f i (length ts) = scan_list f (drop i ts)"
proof (induction "length ts - i" arbitrary: i)
  case 0
  then have "i = length ts" by simp
  then show ?case by (simp add: scan.simps)
next
  case (Suc d)
  then have lt: "i < length ts" by simp
  have step: "drop i ts = ts ! i # drop (Suc i) ts"
    using lt by (simp add: Cons_nth_drop_Suc)
  have ih: "scan j f (Suc i) (length ts) = scan_list f (drop (Suc i) ts)"
    using Suc lt by simp
  show ?case
    unfolding scan.simps [of j f i "length ts"] step
    using lt ih by (simp add: target_field_list [OF assms lt] split: sum.splits)
qed

lemma run_is_scan_list:
  assumes "json_load stdin = Inr j" and "getitem_key j ''targets'' = Inr (PList ts)"
  shows "extract_coverage json_load [prog, N] stdin = scan_list N ts"
  using scan_is_scan_list [OF assms(2), of 0 N] assms
  by (simp add: extract_coverage_def)

lemma well_formed_report_targets:
  "well_formed_report j \<Longrightarrow>
   getitem_key j ''targets'' = Inr (PList (targets_of j)) \<and> list_all well_formed_target (targets_of j)"
  by (cases j) (auto split: option.splits pyval.splits)

lemma well_formed_target_name:
  "well_formed_target r \<Longrightarrow> \<exists>nm. getitem_key r ''name'' = Inr (PStr nm)"
  by (cases r) (auto split: option.splits pyval.splits)

lemma scan_list_skip:
  "\<forall>x\<in>set pre. \<exists>nm. getitem_key x ''name'' = Inr nm \<and> nm \<noteq> PStr f \<Longrightarrow>
   scan_list f (pre @ rest) = scan_list f rest"
  by (induction pre) (auto simp: py_eq_str_def)

lemma scan_list_no_match:
  "list_all well_formed_target ts \<Longrightarrow> \<forall>r\<in>set ts. \<not> named N r \<Longrightarrow>
   scan_list N ts = sys_exit [] 1"
proof (induction ts)
  case Nil
  show ?case by simp
next
  case (Cons r ts)
  from Cons.prems(1) obtain nm where nm: "getitem_key r ''name'' = Inr (PStr nm)"
    using well_formed_target_name by auto
  with Cons.prems(2) have "nm \<noteq> N" by (auto simp: named_def)
  with nm Cons show ?case by (simp add: py_eq_str_def)
qed


lemma scan_list_first_match:
  assumes "list_all well_formed_target pre" and "\<forall>x\<in>set pre. \<not> named N x"
    and "named N r" and "getitem_key r ''lineCoverage'' = Inr c"
  shows "scan_list N (pre @ r # post) = print_percentage c"
proof -
  have "\<forall>x\<in>set pre. \<exists>nm. getitem_key x ''name'' = Inr nm \<and> nm \<noteq> PStr N"
  proof
    fix x assume x: "x \<in> set pre"
    with assms(1) have "well_formed_target x" by (simp add: list_all_iff)
    then obtain nm where "getitem_key x ''name'' = Inr (PStr nm)"
      using well_formed_target_name by blast
    with x assms(2) show "\<exists>nm. getitem_key x ''name'' = Inr nm \<and> nm \<noteq> PStr N"
      by (auto simp: named_def)
  qed
  then have "scan_list N (pre @ r # post) = scan_list N (r # post)"
    by (rule scan_list_skip)
  also have "\<dots> = print_percentage c"
    using assms(3,4) by (simp add: named_def py_eq_str_def)
  finally show ?thesis .
qed

section \<open>Rounding and conversion\<close>

lemma bit_length_le: "n < 2 ^ k \<Longrightarrow> bit_length n \<le> k"
proof (induction n arbitrary: k rule: bit_length.induct)
  case (1 n)
  show ?case
  proof (cases "n = 0")
    case True
    then show ?thesis by (simp add: bit_length.simps)
  next
    case False
    with "1.prems" obtain k' where k: "k = Suc k'" by (cases k) auto
    with "1.prems" have "n div 2 < 2 ^ k'" by simp
    with "1.IH" [OF False] have "bit_length (n div 2) \<le> k'" by simp
    with False k show ?thesis by (simp add: bit_length.simps [of n])
  qed
qed

lemma bit_length_pos: "0 < n \<Longrightarrow> 0 < bit_length n"
  by (simp add: bit_length.simps [of n])

lemma less_two_power_bit_length: "n < 2 ^ bit_length n"
proof (induction n rule: bit_length.induct)
  case (1 n)
  show ?case
  proof (cases "n = 0")
    case True
    then show ?thesis by simp
  next
    case False
    with "1.IH" have "n div 2 < 2 ^ bit_length (n div 2)" by simp
    then have "n < 2 * 2 ^ bit_length (n div 2)" by linarith
    with False show ?thesis by (simp add: bit_length.simps [of n])
  qed
qed

lemma bit_length_gt: "2 ^ k \<le> n \<Longrightarrow> k < bit_length n"
proof -
  assume "2 ^ k \<le> n"
  also have "n < 2 ^ bit_length n" by (rule less_two_power_bit_length)
  finally show ?thesis by simp
qed

lemma bit_length_2_53: "bit_length (2 ^ 53 :: nat) = 54"
  by (simp add: bit_length.simps)

lemma round_half_even_exact: "0 < d \<Longrightarrow> round_half_even (n * d) d = n"
  by (simp add: round_half_even_def)

lemma round_half_even_le: "round_half_even n d \<le> n div d + 1"
  by (simp add: round_half_even_def Let_def)

lemma round_to_double_finite:
  assumes "e + int (bit_length n) \<le> 1023"
  shows "\<exists>m' e'. round_to_double s n e = Finite s m' e'"
proof (cases "n = 0")
  case True
  then show ?thesis by (simp add: round_to_double_def)
next
  case False
  define e' where "e' = max (e + int (bit_length n) - 53) (- 1074)"
  from assms have "e' \<le> 970" by (simp add: e'_def)
  with False show ?thesis
    unfolding round_to_double_def Let_def e'_def [symmetric] by simp
qed

lemma round_to_double_exact:
  assumes "n \<le> 2 ^ 53"
  shows "\<exists>m e. round_to_double s n 0 = Finite s m e \<and> float_round m e = n"
proof -
  consider "n = 0" | "n = 2 ^ 53" | "0 < n" "n < 2 ^ 53" using assms by arith
  then show ?thesis
  proof cases
    case 1
    then show ?thesis by (simp add: round_to_double_def round_half_even_def)
  next
    case 2
    have "round_to_double s (2 ^ 53) 0 = Finite s (2 ^ 52) 1"
      unfolding round_to_double_def bit_length_2_53
      by (simp add: round_half_even_def)
    moreover have "float_round (2 ^ 52) 1 = 2 ^ 53" by simp
    ultimately show ?thesis unfolding 2 by blast
  next
    case 3
    define b where "b = bit_length n"
    have b53: "b \<le> 53" and b0: "0 < b"
      using 3 bit_length_le [of n 53] bit_length_pos [of n] by (simp_all add: b_def)
    define k where "k = 53 - b"
    have e': "max (0 + int b - 53) (- 1074) = - int k" using b53 b0 by (simp add: k_def)
    have r: "round_to_double s n 0 = Finite s (n * 2 ^ k) (- int k)"
      using 3 unfolding round_to_double_def b_def [symmetric] Let_def e' by simp
    have "float_round (n * 2 ^ k) (- int k) = n"
      by (cases "k = 0") (simp_all add: round_half_even_exact)
    with r show ?thesis by blast
  qed
qed

lemma round_to_double_int_finite:
  assumes "n < 2 ^ 1024 - 2 ^ 970"
  shows "\<exists>m e. round_to_double s n 0 = Finite s m e"
proof -
  define b where "b = bit_length n"
  have "n < 2 ^ 1024" using assms by simp
  then have b1024: "b \<le> 1024" unfolding b_def by (rule bit_length_le)
  show ?thesis
  proof (cases "b \<le> 1023")
    case True
    then show ?thesis using round_to_double_finite [of 0 n s] by (simp add: b_def)
  next
    case False
    with b1024 have b: "b = 1024" by simp
    have n0: "n \<noteq> 0"
    proof
      assume "n = 0"
      then have "b = 0" by (simp add: b_def bit_length.simps [of 0])
      with b show False by simp
    qed
    define D :: nat where "D = 2 ^ 971"
    define K :: nat where "K = 2 ^ 53 - 1"
    define lim :: nat where "lim = 2 ^ 1024 - 2 ^ 970"
    have lim: "lim = K * D + D div 2" and Dpos: "0 < D" and Deven: "2 * (D div 2) = D"
      and K: "K + 1 = 2 ^ 53"
      by (simp_all add: D_def K_def lim_def)
    have nlim: "n < lim" using assms by (simp add: lim_def)
    define q0 where "q0 = n div D"
    define r where "r = n mod D"
    have n: "n = q0 * D + r" and rD: "r < D" using Dpos by (simp_all add: q0_def r_def)
    have q0K: "q0 \<le> K"
    proof (rule ccontr)
      assume "\<not> q0 \<le> K"
      then have "K + 1 \<le> q0" by simp
      then have "(K + 1) * D \<le> q0 * D" by (rule mult_le_mono1)
      then have "K * D + D \<le> q0 * D" by simp
      with n nlim lim show False by linarith
    qed
    have "round_half_even n D \<le> K"
    proof (cases "q0 = K")
      case True
      with n nlim lim have "r < D div 2" by simp
      with Deven have "2 * r < D" by linarith
      then have "round_half_even n D = q0"
        by (simp add: round_half_even_def q0_def [symmetric] r_def [symmetric])
      with True show ?thesis by simp
    next
      case False
      with q0K have "q0 + 1 \<le> K" by simp
      with round_half_even_le [of n D] show ?thesis by (simp add: q0_def)
    qed
    with K have q: "round_half_even n D < 2 ^ 53" by linarith
    have e': "max (0 + int b - 53) (- 1074) = 971" using b by simp
    have sh: "(2::nat) ^ nat (971 - 0) = D" by (simp add: D_def)
    show ?thesis
      using n0 q unfolding round_to_double_def b_def [symmetric] Let_def e' sh
      by simp
  qed
qed

lemma round_to_double_overflow:
  assumes "2 ^ 1024 \<le> n"
  shows "round_to_double s n 0 = Infinite s"
proof -
  define b where "b = bit_length n"
  have b: "1024 < b" unfolding b_def using assms by (rule bit_length_gt)
  have n0: "n \<noteq> 0" using assms by auto
  define e' where "e' = max (0 + int b - 53) (- 1074)"
  have e': "971 < e'" using b by (simp add: e'_def)
  show ?thesis
    using n0 e' unfolding round_to_double_def b_def [symmetric] Let_def e'_def [symmetric]
    by simp
qed

lemma int_to_float_overflow:
  assumes "2 ^ 1024 \<le> \<bar>n\<bar>"
  shows "int_to_float n = Inl OverflowError"
proof -
  have "(2::nat) ^ 1024 \<le> nat \<bar>n\<bar>" using assms by (simp add: le_nat_iff)
  then show ?thesis by (simp add: int_to_float_def round_to_double_overflow)
qed

lemma print_percentage_int:
  assumes "\<bar>n\<bar> * 100 \<le> 2 ^ 53"
  shows "print_percentage (PInt n) = sys_exit (show_int (n * 100) @ [newline]) 0"
proof -
  define p where "p = n * 100"
  define a where "a = nat \<bar>p\<bar>"
  have "a \<le> 2 ^ 53" using assms by (simp add: a_def p_def abs_mult)
  from round_to_double_exact [OF this, of "p < 0"]
  obtain m e where r: "round_to_double (p < 0) a 0 = Finite (p < 0) m e"
    and f: "float_round m e = a" by blast
  have "int_to_float p = Inr (Finite (p < 0) m e)"
    unfolding int_to_float_def a_def [symmetric] r by simp
  then have "py_format_0f (PInt p) = Inr (show_int p)"
    using f by (simp add: show_int_def a_def del: float_round.simps)
  then show ?thesis
    by (simp add: print_percentage_def p_def)
qed

lemma print_percentage_float:
  assumes "float_mul_int d 100 = Finite s m e"
  shows "print_percentage (PFloat d) =
         sys_exit ((if s then ''-'' else '''') @ show_nat (float_round m e) @ [newline]) 0"
  using assms by (simp add: print_percentage_def del: float_round.simps)

lemma print_percentage_rounded:
  assumes "rounded_percent c = Some k"
  shows "print_percentage c = sys_exit (show_int k @ [newline]) 0"
proof (cases c)
  case (PInt n)
  with assms print_percentage_int [of n] show ?thesis by (auto split: if_splits)
next
  case (PFloat d)
  with assms obtain s m e where d: "float_mul_int d 100 = Finite s m e"
    and k: "k = (if s then - 1 else 1) * int (float_round m e)" and nz: "\<not> (s \<and> float_round m e = 0)"
    by (auto split: double.splits if_splits simp del: float_round.simps)
  from k nz have "show_int k = (if s then ''-'' else '''') @ show_nat (float_round m e)"
    by (auto simp: show_int_def simp del: float_round.simps)
  with print_percentage_float [OF d] PFloat show ?thesis by (simp del: float_round.simps)
qed (use assms in simp_all)

section \<open>Printed text\<close>

lemma digit_char_is_digit: "d < 10 \<Longrightarrow> is_digit (digit_char d)"
  unfolding is_digit_def digit_char_def by (rule nth_mem) simp

lemma show_nat_digits: "show_nat n \<noteq> [] \<and> list_all is_digit (show_nat n)"
proof (induction n rule: show_nat.induct)
  case (1 n)
  show ?case
  proof (cases "n < 10")
    case True
    then show ?thesis by (simp add: show_nat.simps [of n] digit_char_is_digit)
  next
    case False
    with "1.IH" have "list_all is_digit (show_nat (n div 10))" by simp
    with False show ?thesis by (simp add: show_nat.simps [of n] digit_char_is_digit)
  qed
qed

lemma unit_interval_product_finite:
  assumes "in_unit_interval (PFloat (Finite False m e))"
  shows "\<exists>m' e'. float_mul_int (Finite False m e) 100 = Finite False m' e'"
proof (cases "m = 0")
  case True
  then show ?thesis by (simp add: round_to_double_def)
next
  case False
  have "e + int (bit_length (m * 100)) \<le> 1023"
  proof (cases "0 \<le> e")
    case True
    with assms False have m1: "m * 2 ^ nat e \<le> 1" by simp
    have "m \<le> m * 2 ^ nat e" by simp
    with m1 False have "m = 1" by linarith
    have "nat e = 0"
    proof (rule ccontr)
      assume "nat e \<noteq> 0"
      then have "(2::nat) ^ 1 \<le> 2 ^ nat e" by (intro power_increasing) simp_all
      with m1 \<open>m = 1\<close> show False by simp
    qed
    with True have "e = 0" by simp
    have "m * 100 < 2 ^ 7" using \<open>m = 1\<close> by simp
    then have "bit_length (m * 100) \<le> 7" by (rule bit_length_le)
    with \<open>e = 0\<close> show ?thesis by simp
  next
    case neg: False
    define k where "k = nat (- e)"
    with assms False neg have mk: "m \<le> 2 ^ k" by simp
    have "m * 100 \<le> 2 ^ k * 100" using mk by simp
    also have "\<dots> < 2 ^ k * 2 ^ 7" by simp
    finally have "m * 100 < 2 ^ (k + 7)" by (simp add: power_add)
    then have "bit_length (m * 100) \<le> k + 7" by (rule bit_length_le)
    with neg show ?thesis by (simp add: k_def)
  qed
  from round_to_double_finite [OF this, of False] show ?thesis by simp
qed

lemma print_percentage_unit_interval:
  assumes "in_unit_interval c" and "\<not> negative_zero c"
  shows "\<exists>ds. print_percentage c = sys_exit (ds @ [newline]) 0 \<and> ds \<noteq> [] \<and> list_all is_digit ds"
proof (cases c)
  case (PInt n)
  with assms have n: "0 \<le> n" "n \<le> 1" by simp_all
  then have "\<bar>n\<bar> * 100 \<le> 2 ^ 53" by simp
  from print_percentage_int [OF this] n
  have "print_percentage c = sys_exit (show_nat (nat \<bar>n * 100\<bar>) @ [newline]) 0"
    by (simp add: show_int_def PInt)
  with show_nat_digits show ?thesis by blast
next
  case (PFloat d)
  with assms obtain m e where d: "d = Finite False m e"
    by (cases d) auto
  with assms PFloat have "in_unit_interval (PFloat (Finite False m e))" by simp
  from unit_interval_product_finite [OF this]
  obtain m' e' where "float_mul_int (Finite False m e) 100 = Finite False m' e'" by blast
  from print_percentage_float [OF this]
  have "print_percentage c = sys_exit (show_nat (float_round m' e') @ [newline]) 0"
    by (simp add: PFloat d del: float_round.simps)
  with show_nat_digits show ?thesis by blast
qed (use assms in simp_all)

lemma print_percentage_no_validation:
  assumes "c = PFloat d \<or> (c = PInt n \<and> \<bar>n\<bar> * 100 < 2 ^ 1024 - 2 ^ 970)"
  shows "\<exists>p s. py_mul_int c 100 = Inr p \<and> py_format_0f p = Inr s \<and>
           print_percentage c = sys_exit (s @ [newline]) 0"
  using assms
proof
  assume "c = PFloat d"
  then show ?thesis by (simp add: print_percentage_def)
next
  assume a: "c = PInt n \<and> \<bar>n\<bar> * 100 < 2 ^ 1024 - 2 ^ 970"
  define p where "p = n * 100"
  define lim :: nat where "lim = 2 ^ 1024 - 2 ^ 970"
  have "int lim = 2 ^ 1024 - 2 ^ 970" by (simp add: lim_def)
  with a have "\<bar>p\<bar> < int lim" by (simp add: p_def abs_mult)
  then have "nat \<bar>p\<bar> < lim" by linarith
  then have "nat \<bar>p\<bar> < 2 ^ 1024 - 2 ^ 970" by (simp only: lim_def)
  from round_to_double_int_finite [OF this, of "p < 0"]
  obtain m e where "round_to_double (p < 0) (nat \<bar>p\<bar>) 0 = Finite (p < 0) m e" by blast
  then have "int_to_float p = Inr (Finite (p < 0) m e)" by (simp add: int_to_float_def)
  then have "py_format_0f (PInt p) = Inr (format_float_0f (Finite (p < 0) m e))" by simp
  with a show ?thesis by (simp add: print_percentage_def p_def del: format_float_0f.simps)
qed

section \<open>Inputs the script rejects\<close>

lemma scan_not_list:
  assumes "getitem_key j ''targets'' = Inr t" and "\<not> is_list t" and "py_len t = Inr n"
  shows "exit_code (scan j N 0 n) = 1 \<and> stdout (scan j N 0 n) = []"
proof (cases "n = 0")
  case True
  then show ?thesis by (simp add: scan.simps sys_exit_def)
next
  case False
  have "\<exists>x. target_field j 0 ''name'' = Inl x"
    using assms False by (cases t) (auto simp: target_field_def)
  then obtain x where "target_field j 0 ''name'' = Inl x" by blast
  with False show ?thesis by (simp add: scan.simps [of j N 0 n] uncaught_def)
qed

lemma run_not_list:
  assumes "json_load stdin = Inr j" and "getitem_key j ''targets'' = Inr t" and "\<not> is_list t"
  shows "exit_code (extract_coverage json_load [prog, N] stdin) = 1 \<and>
         stdout (extract_coverage json_load [prog, N] stdin) = []"
proof (cases "py_len t")
  case (Inl x)
  with assms show ?thesis by (simp add: extract_coverage_def uncaught_def)
next
  case (Inr n)
  with assms scan_not_list [OF assms(2,3) Inr, of N] show ?thesis
    by (simp add: extract_coverage_def)
qed

lemma scan_list_bad_entry:
  assumes "\<forall>x\<in>set pre. \<not> named N x"
    and "getitem_key r ''name'' = Inl x \<or> (named N r \<and> getitem_key r ''lineCoverage'' = Inl x)"
  shows "\<exists>x'. scan_list N (pre @ r # post) = uncaught x' []"
  using assms(1)
proof (induction pre)
  case Nil
  from assms(2) show ?case by (auto simp: named_def py_eq_str_def)
next
  case (Cons a pre)
  show ?case
  proof (cases "getitem_key a ''name''")
    case (Inl e)
    then show ?thesis by auto
  next
    case (Inr nm)
    with Cons.prems have "\<not> py_eq_str nm N" by (auto simp: named_def py_eq_str_def)
    with Inr Cons show ?thesis by simp
  qed
qed

section \<open>A run on a report\<close>

lemma run_first_match:
  assumes "json_load stdin = Inr j" and "well_formed_report j"
    and "targets_of j = pre @ r # post"
    and "\<forall>x\<in>set pre. \<not> named N x" and "named N r"
    and "getitem_key r ''lineCoverage'' = Inr c"
  shows "extract_coverage json_load [prog, N] stdin = print_percentage c"
proof -
  from assms(2,3) have t: "getitem_key j ''targets'' = Inr (PList (pre @ r # post))"
    and wf: "list_all well_formed_target pre"
    using well_formed_report_targets [of j] by auto
  have "extract_coverage json_load [prog, N] stdin = scan_list N (pre @ r # post)"
    by (rule run_is_scan_list [of json_load stdin, OF assms(1) t])
  also have "\<dots> = print_percentage c"
    by (rule scan_list_first_match [OF wf assms(4,5,6)])
  finally show ?thesis .
qed

lemmas fixture_defs = reads_as_def report_def target_def named_def
  f_0_873_def f_0_5_def f_0_25_def f_0_75_def f_0_005_def f_neg_0_def f_neg_0_5_def

lemmas eval_defs = print_percentage_def sys_exit_def uncaught_def round_to_double_def
  round_half_even_def bit_length.simps show_nat.simps digit_char_def int_to_float_def
  show_int_def newline_def

lemmas run_defs = extract_coverage_def scan.simps target_field_def py_eq_str_def

section \<open>The claims\<close>

text \<open>
  Claim C1, as stated: for every well-formed report that contains a target named \<open>N\<close>
  with lineCoverage \<open>c\<close>, the run with the single argument \<open>N\<close> prints
  \<^verbatim>\<open>round(c*100)\<close> as one line and exits with 0. It fails where an earlier target
  has the same name: in the report below the second target is named \<^verbatim>\<open>a\<close> and has
  lineCoverage \<^verbatim>\<open>0.75\<close>, \<^verbatim>\<open>round(0.75*100)\<close> is 75, and the run prints \<^verbatim>\<open>25\<close>.
\<close>

theorem any_named_target_counterexample:
  "well_formed_report dup_report \<and>
   targets_of dup_report ! 1 = target ''a'' (PFloat f_0_75) \<and>
   named ''a'' (target ''a'' (PFloat f_0_75)) \<and>
   rounded_percent (PFloat f_0_75) = Some 75 \<and>
   show_int 75 = ''75'' \<and>
   extract_coverage (reads_as dup_text dup_report) [''extract_coverage.py'', ''a''] dup_text =
     \<lparr>stdout = ''25'' @ [newline], stderr = Silent, exit_code = 0, stdin_rest = []\<rparr> \<and>
   stdout (extract_coverage (reads_as dup_text dup_report) [''extract_coverage.py'', ''a'']
     dup_text) \<noteq> ''75'' @ [newline]"
  by (simp add: run_defs dup_report_def fixture_defs eval_defs)

text \<open>
  Claim C1, amended: for every well-formed report whose first target named \<open>N\<close> has
  lineCoverage \<open>c\<close>, where \<open>c\<close> is an int with \<open>|c * 100| \<le> 2^53\<close> or a float whose
  binary64 product with 100 is finite and is not a negative value rounding to zero, the
  run with the single argument \<open>N\<close> prints the numeral of \<^verbatim>\<open>round(c*100)\<close> (the
  product rounded to an integer, ties to even) as one line, nothing on standard error,
  and exits with 0.
\<close>

theorem first_named_target_percentage:
  assumes "json_load stdin = Inr j" and "well_formed_report j"
    and "targets_of j = pre @ r # post"
    and "\<forall>x\<in>set pre. \<not> named N x" and "named N r"
    and "getitem_key r ''lineCoverage'' = Inr c"
    and "rounded_percent c = Some k"
  shows "extract_coverage json_load [prog, N] stdin =
         \<lparr>stdout = show_int k @ [newline], stderr = Silent, exit_code = 0, stdin_rest = []\<rparr>"
proof -
  have "extract_coverage json_load [prog, N] stdin = print_percentage c"
    by (rule run_first_match [of json_load stdin, OF assms(1-6)])
  also have "\<dots> = sys_exit (show_int k @ [newline]) 0"
    by (rule print_percentage_rounded [OF assms(7)])
  finally show ?thesis by (simp add: sys_exit_def)
qed

theorem first_named_target_percentage_witness:
  "reads_as sample_text sample_report sample_text = Inr sample_report \<and>
   well_formed_report sample_report \<and>
   targets_of sample_report = [target ''alpha'' (PFloat f_0_873)] @ target ''beta'' (PFloat f_0_5) # [] \<and>
   \<not> named ''beta'' (target ''alpha'' (PFloat f_0_873)) \<and>
   named ''beta'' (target ''beta'' (PFloat f_0_5)) \<and>
   getitem_key (target ''beta'' (PFloat f_0_5)) ''lineCoverage'' = Inr (PFloat f_0_5) \<and>
   rounded_percent (PFloat f_0_5) = Some 50 \<and>
   show_int 50 = ''50'' \<and>
   extract_coverage (reads_as sample_text sample_report) [''extract_coverage.py'', ''beta'']
     sample_text =
     \<lparr>stdout = ''50'' @ [newline], stderr = Silent, exit_code = 0, stdin_rest = []\<rparr>"
proof -
  have h1: "reads_as sample_text sample_report sample_text = Inr sample_report"
    by (simp add: reads_as_def)
  have h2: "well_formed_report sample_report"
    by (simp add: sample_report_def fixture_defs)
  have h3: "targets_of sample_report =
      [target ''alpha'' (PFloat f_0_873)] @ target ''beta'' (PFloat f_0_5) # []"
    by (simp add: sample_report_def report_def)
  have h4: "\<forall>x\<in>set [target ''alpha'' (PFloat f_0_873)]. \<not> named ''beta'' x"
    by (simp add: target_def named_def)
  have h5: "named ''beta'' (target ''beta'' (PFloat f_0_5))"
    by (simp add: target_def named_def)
  have h6: "getitem_key (target ''beta'' (PFloat f_0_5)) ''lineCoverage'' = Inr (PFloat f_0_5)"
    by (simp add: target_def)
  have h7: "rounded_percent (PFloat f_0_5) = Some 50"
    by (simp add: f_0_5_def eval_defs)
  have h8: "show_int 50 = ''50''"
    by (simp add: eval_defs)
  from first_named_target_percentage [of "reads_as sample_text sample_report" sample_text,
      OF h1 h2 h3 h4 h5 h6 h7, of "''extract_coverage.py''"]
  show ?thesis using h1 h2 h3 h4 h5 h6 h7 h8 by simp
qed

text \<open>
  Claim C2: for every well-formed report in which no record of \<^verbatim>\<open>targets\<close> is named
  \<open>N\<close>, the run with the argument \<open>N\<close> writes nothing to standard output (and nothing
  to standard error) and exits with 1.
\<close>

theorem no_target_named_exit_1:
  assumes "json_load stdin = Inr j" and "well_formed_report j"
    and "\<forall>r\<in>set (targets_of j). \<not> named N r"
  shows "extract_coverage json_load [prog, N] stdin =
         \<lparr>stdout = [], stderr = Silent, exit_code = 1, stdin_rest = []\<rparr>"
proof -
  from assms(2) have t: "getitem_key j ''targets'' = Inr (PList (targets_of j))"
    and wf: "list_all well_formed_target (targets_of j)"
    using well_formed_report_targets by auto
  have "extract_coverage json_load [prog, N] stdin = scan_list N (targets_of j)"
    by (rule run_is_scan_list [of json_load stdin, OF assms(1) t])
  also have "\<dots> = sys_exit [] 1"
    by (rule scan_list_no_match [OF wf assms(3)])
  finally show ?thesis by (simp add: sys_exit_def)
qed

theorem no_target_named_exit_1_witness:
  "reads_as sample_text sample_report sample_text = Inr sample_report \<and>
   well_formed_report sample_report \<and>
   list_all (\<lambda>r. \<not> named ''gamma'' r) (targets_of sample_report) \<and>
   extract_coverage (reads_as sample_text sample_report) [''extract_coverage.py'', ''gamma'']
     sample_text =
     \<lparr>stdout = [], stderr = Silent, exit_code = 1, stdin_rest = []\<rparr>"
  using no_target_named_exit_1 [of "reads_as sample_text sample_report" sample_text
      sample_report "''gamma''" "''extract_coverage.py''"]
  by (simp add: sample_report_def fixture_defs)

text \<open>
  Claim C3: with no positional argument, or with two or more, the run prints the usage
  line to standard error, exits with 1 and writes nothing to standard output, whatever
  standard input holds: standard input is left unread, and neither its content nor what
  \<^verbatim>\<open>json.load\<close> would make of it appears in the outcome.
\<close>

theorem wrong_argument_count_usage:
  assumes "length args \<noteq> 1"
  shows "extract_coverage json_load (prog # args) stdin =
         \<lparr>stdout = [],
          stderr = Text (''Usage: '' @ prog @ '' frameworkname'' @ [newline]),
          exit_code = 1, stdin_rest = stdin\<rparr>"
  using assms by (simp add: extract_coverage_def)

theorem wrong_argument_count_usage_witness:
  "length [''alpha'', ''beta''] \<noteq> 1 \<and>
   extract_coverage (reads_as sample_text sample_report)
     (''extract_coverage.py'' # [''alpha'', ''beta'']) sample_text =
     \<lparr>stdout = [],
      stderr = Text (''Usage: extract_coverage.py frameworkname'' @ [newline]),
      exit_code = 1, stdin_rest = sample_text\<rparr>"
  using wrong_argument_count_usage [of "[''alpha'', ''beta'']"
      "reads_as sample_text sample_report" "''extract_coverage.py''" sample_text]
  by simp

text \<open>
  Claim C4, as stated: every input that is not well-formed (empty, a syntax error, no
  \<^verbatim>\<open>targets\<close> key, \<^verbatim>\<open>targets\<close> not an array, or entries missing expected fields)
  ends with a non-zero exit status and nothing on standard output. It fails for an entry
  the scan never reaches: the report below has an entry \<^verbatim>\<open>{}\<close> with neither field,
  after a target named \<^verbatim>\<open>x\<close>, and the run with argument \<^verbatim>\<open>x\<close> prints \<^verbatim>\<open>100\<close>
  and exits with 0.
\<close>

theorem unreached_entry_counterexample:
  "\<not> well_formed_report partial_report \<and>
   targets_of partial_report ! 1 = PDict [] \<and>
   getitem_key (PDict []) ''name'' = Inl KeyError \<and>
   getitem_key (PDict []) ''lineCoverage'' = Inl KeyError \<and>
   extract_coverage (reads_as partial_text partial_report) [''extract_coverage.py'', ''x'']
     partial_text =
     \<lparr>stdout = ''100'' @ [newline], stderr = Silent, exit_code = 0, stdin_rest = []\<rparr>"
  by (simp add: run_defs partial_report_def fixture_defs eval_defs)

text \<open>
  Claim C4, amended: the run with one argument \<open>N\<close> exits with status 1 and writes
  nothing to standard output whenever \<^verbatim>\<open>json.load\<close> raises (empty input, syntax error);
  or the loaded value is not an object with a \<^verbatim>\<open>targets\<close> key; or \<^verbatim>\<open>targets\<close> is not
  an array; or \<^verbatim>\<open>targets\<close> has an entry, with no entry named \<open>N\<close> before it, that is
  not an object with a \<^verbatim>\<open>name\<close> key, or that is named \<open>N\<close> and has no
  \<^verbatim>\<open>lineCoverage\<close> key. (A missing field in an entry behind the first one named
  \<open>N\<close>, and a missing \<^verbatim>\<open>lineCoverage\<close> in an entry with another name, are never
  looked at.)
\<close>

theorem malformed_input_reached_fails:
  assumes "json_load stdin = Inl x \<or>
     (json_load stdin = Inr j \<and>
        (getitem_key j ''targets'' = Inl x \<or>
         (getitem_key j ''targets'' = Inr t \<and>
            (\<not> is_list t \<or>
             (t = PList (pre @ r # post) \<and> (\<forall>y\<in>set pre. \<not> named N y) \<and>
                (getitem_key r ''name'' = Inl x \<or>
                 (named N r \<and> getitem_key r ''lineCoverage'' = Inl x)))))))"
  shows "exit_code (extract_coverage json_load [prog, N] stdin) = 1 \<and>
         stdout (extract_coverage json_load [prog, N] stdin) = []"
proof -
  consider (parse) "json_load stdin = Inl x"
    | (top) "json_load stdin = Inr j" "getitem_key j ''targets'' = Inl x"
    | (shape) "json_load stdin = Inr j" "getitem_key j ''targets'' = Inr t" "\<not> is_list t"
    | (entry) "json_load stdin = Inr j" "getitem_key j ''targets'' = Inr (PList (pre @ r # post))"
        "\<forall>y\<in>set pre. \<not> named N y"
        "getitem_key r ''name'' = Inl x \<or> (named N r \<and> getitem_key r ''lineCoverage'' = Inl x)"
    using assms by blast
  then show ?thesis
  proof cases
    case parse
    then show ?thesis by (simp add: extract_coverage_def uncaught_def)
  next
    case top
    then show ?thesis by (simp add: extract_coverage_def uncaught_def)
  next
    case shape
    then show ?thesis by (rule run_not_list)
  next
    case entry
    from scan_list_bad_entry [OF entry(3,4)]
    obtain x' where "scan_list N (pre @ r # post) = uncaught x' []" by blast
    with run_is_scan_list [of json_load stdin, OF entry(1,2)] show ?thesis
      by (simp add: uncaught_def)
  qed
qed

theorem malformed_input_reached_fails_witness:
  "reads_as ''{}'' (PDict []) ''{}'' = Inr (PDict []) \<and>
   getitem_key (PDict []) ''targets'' = Inl KeyError \<and>
   exit_code (extract_coverage (reads_as ''{}'' (PDict [])) [''extract_coverage.py'', ''a''] ''{}'') = 1 \<and>
   stdout (extract_coverage (reads_as ''{}'' (PDict [])) [''extract_coverage.py'', ''a''] ''{}'') = []"
  using malformed_input_reached_fails [where json_load = "reads_as ''{}'' (PDict [])"
      and stdin = "''{}''" and x = KeyError and j = "PDict []" and t = PNone and pre = "[]"
      and r = PNone and post = "[]" and N = "''a''" and prog = "''extract_coverage.py''"]
  by (simp add: reads_as_def)

text \<open>
  Claim C5: where two or more records of \<^verbatim>\<open>targets\<close> share the name \<open>N\<close>, the run
  with argument \<open>N\<close> reports the lineCoverage \<open>c\<close> of the first of them in array order:
  it does with \<open>c\<close> what lines 15 and 16 do (print the formatted \<open>c * 100\<close>, exit) and
  never looks at what follows that record, whatever it is.
\<close>

theorem first_of_duplicates_reported:
  assumes "json_load stdin = Inr j"
    and "getitem_key j ''targets'' = Inr (PList (pre @ r # post))"
    and "list_all well_formed_target pre" and "\<forall>x\<in>set pre. \<not> named N x"
    and "named N r" and "getitem_key r ''lineCoverage'' = Inr c"
  shows "extract_coverage json_load [prog, N] stdin = print_percentage c"
  using run_is_scan_list [of json_load stdin, OF assms(1,2)] scan_list_first_match [OF assms(3-6)]
  by simp

theorem first_of_duplicates_reported_witness:
  "reads_as dup_text dup_report dup_text = Inr dup_report \<and>
   getitem_key dup_report ''targets'' =
     Inr (PList ([] @ target ''a'' (PFloat f_0_25) # [target ''a'' (PFloat f_0_75)])) \<and>
   named ''a'' (target ''a'' (PFloat f_0_25)) \<and>
   named ''a'' (target ''a'' (PFloat f_0_75)) \<and>
   getitem_key (target ''a'' (PFloat f_0_25)) ''lineCoverage'' = Inr (PFloat f_0_25) \<and>
   print_percentage (PFloat f_0_25) =
     \<lparr>stdout = ''25'' @ [newline], stderr = Silent, exit_code = 0, stdin_rest = []\<rparr> \<and>
   extract_coverage (reads_as dup_text dup_report) [''extract_coverage.py'', ''a''] dup_text =
     \<lparr>stdout = ''25'' @ [newline], stderr = Silent, exit_code = 0, stdin_rest = []\<rparr>"
proof -
  have p: "print_percentage (PFloat f_0_25) =
     \<lparr>stdout = ''25'' @ [newline], stderr = Silent, exit_code = 0, stdin_rest = []\<rparr>"
    by (simp add: f_0_25_def eval_defs)
  from first_of_duplicates_reported [of "reads_as dup_text dup_report" dup_text dup_report
      "[]" "target ''a'' (PFloat f_0_25)" "[target ''a'' (PFloat f_0_75)]" "''a''"
      "PFloat f_0_25" "''extract_coverage.py''"]
  have "extract_coverage (reads_as dup_text dup_report) [''extract_coverage.py'', ''a''] dup_text =
      print_percentage (PFloat f_0_25)"
    by (simp add: dup_report_def reads_as_def report_def target_def named_def)
  with p show ?thesis
    by (simp add: dup_report_def reads_as_def report_def target_def named_def)
qed

text \<open>
  Claim C6, as stated: on every successful run whose matched target has its lineCoverage
  in \<open>[0,1]\<close>, standard output is exactly one line holding an integer with no decimal
  point, no sign and no thousands separator. It fails for the float \<^verbatim>\<open>-0.0\<close>, which is
  in \<open>[0,1]\<close> (it equals 0): the run prints \<^verbatim>\<open>-0\<close>.
\<close>

theorem negative_zero_counterexample:
  "valid_double f_neg_0 \<and>
   well_formed_report negzero_report \<and>
   named ''a'' (targets_of negzero_report ! 0) \<and>
   getitem_key (targets_of negzero_report ! 0) ''lineCoverage'' = Inr (PFloat f_neg_0) \<and>
   in_unit_interval (PFloat f_neg_0) \<and>
   extract_coverage (reads_as negzero_text negzero_report) [''extract_coverage.py'', ''a'']
     negzero_text =
     \<lparr>stdout = ''-0'' @ [newline], stderr = Silent, exit_code = 0, stdin_rest = []\<rparr> \<and>
   \<not> list_all is_digit ''-0''"
  by (simp add: run_defs negzero_report_def fixture_defs eval_defs is_digit_def)

text \<open>
  Claim C6, amended: for every well-formed report whose first target named \<open>N\<close> has a
  lineCoverage in \<open>[0,1]\<close> other than the float \<^verbatim>\<open>-0.0\<close>, the run with argument \<open>N\<close>
  exits with 0 and its whole standard output is one line made of decimal digits only, at
  least one.
\<close>

theorem unit_interval_prints_digits:
  assumes "json_load stdin = Inr j" and "well_formed_report j"
    and "targets_of j = pre @ r # post"
    and "\<forall>x\<in>set pre. \<not> named N x" and "named N r"
    and "getitem_key r ''lineCoverage'' = Inr c"
    and "in_unit_interval c" and "\<not> negative_zero c"
  shows "\<exists>ds. ds \<noteq> [] \<and> list_all is_digit ds \<and>
           extract_coverage json_load [prog, N] stdin =
           \<lparr>stdout = ds @ [newline], stderr = Silent, exit_code = 0, stdin_rest = []\<rparr>"
proof -
  have "extract_coverage json_load [prog, N] stdin = print_percentage c"
    by (rule run_first_match [of json_load stdin, OF assms(1-6)])
  moreover obtain ds where "print_percentage c = sys_exit (ds @ [newline]) 0"
    and "ds \<noteq> []" and "list_all is_digit ds"
    using print_percentage_unit_interval [OF assms(7,8)] by blast
  ultimately show ?thesis by (auto simp: sys_exit_def)
qed

theorem unit_interval_prints_digits_witness:
  "reads_as sample_text sample_report sample_text = Inr sample_report \<and>
   well_formed_report sample_report \<and>
   targets_of sample_report = [] @ target ''alpha'' (PFloat f_0_873) # [target ''beta'' (PFloat f_0_5)] \<and>
   named ''alpha'' (target ''alpha'' (PFloat f_0_873)) \<and>
   getitem_key (target ''alpha'' (PFloat f_0_873)) ''lineCoverage'' = Inr (PFloat f_0_873) \<and>
   in_unit_interval (PFloat f_0_873) \<and> \<not> negative_zero (PFloat f_0_873) \<and>
   (\<exists>ds. ds \<noteq> [] \<and> list_all is_digit ds \<and>
      extract_coverage (reads_as sample_text sample_report) [''extract_coverage.py'', ''alpha'']
        sample_text =
      \<lparr>stdout = ds @ [newline], stderr = Silent, exit_code = 0, stdin_rest = []\<rparr>)"
  using unit_interval_prints_digits [of "reads_as sample_text sample_report" sample_text
      sample_report "[]" "target ''alpha'' (PFloat f_0_873)" "[target ''beta'' (PFloat f_0_5)]"
      "''alpha''" "PFloat f_0_873" "''extract_coverage.py''"]
  by (simp add: sample_report_def reads_as_def report_def target_def named_def f_0_873_def)

text \<open>
  Claim C7: where the matched target has lineCoverage \<^verbatim>\<open>0.005\<close>, the run prints either
  \<^verbatim>\<open>1\<close> or \<^verbatim>\<open>0\<close>, according to how the formatter breaks ties. The binary64 product
  \<^verbatim>\<open>0.005 * 100\<close> is exactly one half (\<open>2^52 * 2^-53\<close>), a tie, and Python's formatter
  rounds ties to even: the line printed is \<^verbatim>\<open>0\<close>.
\<close>

theorem half_percent_tie:
  assumes "json_load stdin = Inr j" and "well_formed_report j"
    and "targets_of j = pre @ r # post"
    and "\<forall>x\<in>set pre. \<not> named N x" and "named N r"
    and "getitem_key r ''lineCoverage'' = Inr (PFloat f_0_005)"
  shows "(stdout (extract_coverage json_load [prog, N] stdin) = ''0'' @ [newline] \<or>
          stdout (extract_coverage json_load [prog, N] stdin) = ''1'' @ [newline]) \<and>
         float_mul_int f_0_005 100 = Finite False (2 ^ 52) (- 53) \<and>
         extract_coverage json_load [prog, N] stdin =
           \<lparr>stdout = ''0'' @ [newline], stderr = Silent, exit_code = 0, stdin_rest = []\<rparr>"
proof -
  have "extract_coverage json_load [prog, N] stdin = print_percentage (PFloat f_0_005)"
    by (rule run_first_match [of json_load stdin, OF assms])
  moreover have "print_percentage (PFloat f_0_005) =
      \<lparr>stdout = ''0'' @ [newline], stderr = Silent, exit_code = 0, stdin_rest = []\<rparr>"
    by (simp add: f_0_005_def eval_defs)
  moreover have "float_mul_int f_0_005 100 = Finite False (2 ^ 52) (- 53)"
    by (simp add: f_0_005_def eval_defs)
  ultimately show ?thesis by simp
qed

theorem half_percent_tie_witness:
  "valid_double f_0_005 \<and>
   reads_as half_percent_text half_percent_report half_percent_text = Inr half_percent_report \<and>
   well_formed_report half_percent_report \<and>
   targets_of half_percent_report = [] @ target ''a'' (PFloat f_0_005) # [] \<and>
   named ''a'' (target ''a'' (PFloat f_0_005)) \<and>
   getitem_key (target ''a'' (PFloat f_0_005)) ''lineCoverage'' = Inr (PFloat f_0_005) \<and>
   extract_coverage (reads_as half_percent_text half_percent_report)
     [''extract_coverage.py'', ''a''] half_percent_text =
     \<lparr>stdout = ''0'' @ [newline], stderr = Silent, exit_code = 0, stdin_rest = []\<rparr>"
  using half_percent_tie [of "reads_as half_percent_text half_percent_report" half_percent_text
      half_percent_report "[]" "target ''a'' (PFloat f_0_005)" "[]" "''a''"
      "''extract_coverage.py''"]
  by (simp add: half_percent_report_def reads_as_def report_def target_def named_def
      f_0_005_def)




text \<open>
  Claim C10, as stated: the script does not validate the range of lineCoverage; whenever
  the first record named \<open>N\<close> has a numeric lineCoverage outside \<open>[0,1]\<close>, the run
  still prints the formatted \<^verbatim>\<open>lineCoverage*100\<close> and exits with 0. It fails for an
  integer too large for a float: with lineCoverage \<open>10^400\<close> the conversion inside
  \<^verbatim>\<open>format\<close> raises \<^verbatim>\<open>OverflowError\<close>, nothing is printed and the exit status is 1.
\<close>

theorem huge_integer_counterexample:
  "well_formed_report huge_report \<and>
   named ''a'' (targets_of huge_report ! 0) \<and>
   getitem_key (targets_of huge_report ! 0) ''lineCoverage'' = Inr (PInt (10 ^ 400)) \<and>
   is_number (PInt (10 ^ 400)) \<and>
   \<not> in_unit_interval (PInt (10 ^ 400)) \<and>
   extract_coverage (reads_as huge_text huge_report) [''extract_coverage.py'', ''a''] huge_text =
     \<lparr>stdout = [], stderr = Traceback OverflowError, exit_code = 1, stdin_rest = []\<rparr>"
  by (simp add: run_defs huge_report_def fixture_defs int_to_float_overflow
      print_percentage_def uncaught_def)

text \<open>
  Claim C10, amended: the script does not validate the range of lineCoverage; whenever the
  first record named \<open>N\<close> of a well-formed report has a lineCoverage \<open>c\<close> that is a
  float (any: negative, above 1, infinite, not a number), or an int with
  \<open>|c| * 100 < 2^1024 - 2^970\<close> (the product rounds to a finite binary64), inside
  \<open>[0,1]\<close> or not, the run prints the formatted \<^verbatim>\<open>c * 100\<close> as one line and exits
  with 0.
\<close>

theorem no_range_validation:
  assumes "json_load stdin = Inr j" and "well_formed_report j"
    and "targets_of j = pre @ r # post"
    and "\<forall>x\<in>set pre. \<not> named N x" and "named N r"
    and "getitem_key r ''lineCoverage'' = Inr c"
    and "c = PFloat d \<or> (c = PInt n \<and> \<bar>n\<bar> * 100 < 2 ^ 1024 - 2 ^ 970)"
  shows "\<exists>p s. py_mul_int c 100 = Inr p \<and> py_format_0f p = Inr s \<and>
           extract_coverage json_load [prog, N] stdin =
           \<lparr>stdout = s @ [newline], stderr = Silent, exit_code = 0, stdin_rest = []\<rparr>"
proof -
  have "extract_coverage json_load [prog, N] stdin = print_percentage c"
    by (rule run_first_match [of json_load stdin, OF assms(1-6)])
  moreover obtain p s where "py_mul_int c 100 = Inr p" and "py_format_0f p = Inr s"
    and "print_percentage c = sys_exit (s @ [newline]) 0"
    using print_percentage_no_validation [OF assms(7)] by blast
  ultimately show ?thesis by (auto simp: sys_exit_def)
qed

theorem no_range_validation_witness:
  "valid_double f_neg_0_5 \<and>
   reads_as below_zero_text below_zero_report below_zero_text = Inr below_zero_report \<and>
   well_formed_report below_zero_report \<and>
   targets_of below_zero_report = [] @ target ''a'' (PFloat f_neg_0_5) # [] \<and>
   named ''a'' (target ''a'' (PFloat f_neg_0_5)) \<and>
   getitem_key (target ''a'' (PFloat f_neg_0_5)) ''lineCoverage'' = Inr (PFloat f_neg_0_5) \<and>
   \<not> in_unit_interval (PFloat f_neg_0_5) \<and>
   py_format_0f (PFloat (float_mul_int f_neg_0_5 100)) = Inr ''-50'' \<and>
   (\<exists>p s. py_mul_int (PFloat f_neg_0_5) 100 = Inr p \<and> py_format_0f p = Inr s \<and>
      extract_coverage (reads_as below_zero_text below_zero_report)
        [''extract_coverage.py'', ''a''] below_zero_text =
      \<lparr>stdout = s @ [newline], stderr = Silent, exit_code = 0, stdin_rest = []\<rparr>)"
proof -
  have f: "py_format_0f (PFloat (float_mul_int f_neg_0_5 100)) = Inr ''-50''"
    by (simp add: f_neg_0_5_def eval_defs)
  from no_range_validation [of "reads_as below_zero_text below_zero_report" below_zero_text
      below_zero_report "[]" "target ''a'' (PFloat f_neg_0_5)" "[]" "''a''"
      "PFloat f_neg_0_5" f_neg_0_5 0 "''extract_coverage.py''"]
  have "\<exists>p s. py_mul_int (PFloat f_neg_0_5) 100 = Inr p \<and> py_format_0f p = Inr s \<and>
      extract_coverage (reads_as below_zero_text below_zero_report)
        [''extract_coverage.py'', ''a''] below_zero_text =
      \<lparr>stdout = s @ [newline], stderr = Silent, exit_code = 0, stdin_rest = []\<rparr>"
    by (simp add: below_zero_report_def reads_as_def report_def target_def named_def)
  with f show ?thesis
    by (simp add: below_zero_report_def reads_as_def report_def target_def named_def
        f_neg_0_5_def)
qed

end
